theory Spec2Isabelle
  imports Complex_Main
begin

section \<open>Pub/sub message administration services (zato.server.service.internal.pubsub.message)\<close>

text \<open>
  The services of \<^verbatim>\<open>message.py\<close> are embedded as functions over an explicit state.
  Every \<^verbatim>\<open>raise\<close> of the source, and every exception the Python runtime raises on the
  way, is a value \<open>Inl e\<close> of the result. Python floats are modelled as \<^typ>\<open>real\<close>
  (arithmetic is exact, IEEE rounding is left out).
\<close>

subsection \<open>Exceptions\<close>

datatype exn =
    NotFound
  | TypeError
  | UnboundLocalError
  | NameError
  | KeyError
  | NoResultFound
  | MultipleResultsFound
  | AttributeError
  | CommunicationFailure
  | BadRequest
  | NoSubscription

subsection \<open>The GD store: rows of the SQL tables\<close>

text \<open>
  A row of \<^verbatim>\<open>PubSubMessage\<close>. The ORM class is imported from
  \<^verbatim>\<open>zato.common.odb.model\<close>; the columns below are the attributes that
  \<^verbatim>\<open>message.py\<close> reads and writes, plus the primary key that \<^verbatim>\<open>session.delete\<close> and
  \<^verbatim>\<open>session.add\<close> identify a row by.
\<close>

record pubsub_message =
  msg_pk :: nat
  cluster_id :: nat
  pub_msg_id :: string
  topic_id :: nat
  pub_correl_id :: "string option"
  in_reply_to :: "string option"
  pub_time :: real
  ext_pub_time :: "real option"
  expiration :: "int option"
  expiration_time :: "real option"
  data :: string
  data_prefix :: string
  data_prefix_short :: string
  msg_size :: nat
  priority :: int
  mime_type :: string

text \<open>\<^verbatim>\<open>Query.first()\<close>: the first row of the result, or \<^verbatim>\<open>None\<close>.\<close>

fun query_first :: "'a list \<Rightarrow> 'a option" where
  "query_first [] = None"
| "query_first (x # xs) = Some x"

text \<open>
  Python truthiness of a nullable float column: \<^verbatim>\<open>None\<close> and \<^verbatim>\<open>0.0\<close> are false,
  every other number is true.
\<close>

fun truthy_float :: "real option \<Rightarrow> bool" where
  "truthy_float None = False"
| "truthy_float (Some t) = (t \<noteq> 0)"

subsection \<open>GetFromTopicGD\<close>

text \<open>
  Modelled from the spec: \<^verbatim>\<open>pubsub_message(session, cluster_id, msg_id)\<close> is imported from
  \<^verbatim>\<open>zato.common.odb.query\<close>, whose source is not available. The spec keys the GD
  store by \<open>(cluster_id, msg_id)\<close>, so the query selects the rows of that cluster with that
  message ID.
\<close>

definition pubsub_message_query :: "pubsub_message list \<Rightarrow> nat \<Rightarrow> string \<Rightarrow> pubsub_message list" where
  "pubsub_message_query rows cid mid =
     filter (\<lambda>r. cluster_id r = cid \<and> pub_msg_id r = mid) rows"

text \<open>
  The response payload of \<^verbatim>\<open>GetFromTopicGD\<close>: the item, whose three timestamp attributes
  have been overwritten with strings. \<open>gd_item\<close> keeps the attributes the handler does not
  touch.
\<close>

record gd_payload =
  gd_item :: pubsub_message
  gd_pub_time :: string
  gd_ext_pub_time :: string
  gd_expiration_time :: string

text \<open>
  \<^verbatim>\<open>GetFromTopicGD.handle\<close>. \<^verbatim>\<open>datetime_from_ms\<close> comes from \<^verbatim>\<open>zato.common.util.time_\<close>
  and is a parameter.
\<close>

definition GetFromTopicGD_handle ::
  "(real \<Rightarrow> string) \<Rightarrow> pubsub_message list \<Rightarrow> nat \<Rightarrow> string \<Rightarrow> exn + gd_payload" where
  "GetFromTopicGD_handle datetime_from_ms rows input_cluster_id input_msg_id =
     (case query_first (pubsub_message_query rows input_cluster_id input_msg_id) of
        Some item \<Rightarrow>
          Inr \<lparr> gd_item = item,
                gd_pub_time = datetime_from_ms (pub_time item * 1000),
                gd_ext_pub_time =
                  (if truthy_float (ext_pub_time item)
                   then datetime_from_ms (the (ext_pub_time item) * 1000) else ''''),
                gd_expiration_time =
                  (if truthy_float (expiration_time item)
                   then datetime_from_ms (the (expiration_time item) * 1000) else '''') \<rparr>
      | None \<Rightarrow> Inl NotFound)"

subsection \<open>Has\<close>

text \<open>
  \<^verbatim>\<open>Has.handle\<close>: an \<^verbatim>\<open>EXISTS\<close> query over \<^verbatim>\<open>PubSubMessage\<close>. The handler compares the
  row's cluster with \<^verbatim>\<open>self.server.cluster_id\<close>; the \<^verbatim>\<open>cluster_id\<close> of the request is a
  required input that the body never reads.
\<close>

definition Has_handle :: "nat \<Rightarrow> pubsub_message list \<Rightarrow> nat \<Rightarrow> string \<Rightarrow> bool" where
  "Has_handle server_cluster_id rows input_cluster_id input_msg_id =
     list_ex (\<lambda>r. pub_msg_id r = input_msg_id \<and> cluster_id r = server_cluster_id) rows"

subsection \<open>The remaining tables, sessions and the named lock\<close>

text \<open>A row of \<^verbatim>\<open>PubSubTopic\<close>: the columns \<^verbatim>\<open>Delete.handle\<close> filters on and reads.\<close>

record pubsub_topic =
  topic_pk :: nat
  topic_cluster_id :: nat
  topic_name :: string

text \<open>
  A row of \<^verbatim>\<open>PubSubEndpointEnqueuedMessage\<close>, the per-subscriber queue entry. It refers to
  its message by the message ID.
\<close>

record enqueued_message =
  enq_pk :: nat
  enq_pub_msg_id :: string
  enq_sub_key :: string

text \<open>
  What a handler can observe of the world outside of it: the committed contents of the
  three tables and the sequence of lock and commit events.
\<close>

datatype event = LockAcquired string | LockReleased string | Committed

record world =
  messages :: "pubsub_message list"
  topics :: "pubsub_topic list"
  enq_messages :: "enqueued_message list"
  events :: "event list"

text \<open>
  An SQLAlchemy session: the objects marked for deletion and the objects added, both
  pending until \<^verbatim>\<open>commit\<close>. Closing a session without a commit changes no table.
\<close>

record session =
  deleted :: "pubsub_message list"
  dirty :: "pubsub_message list"

definition new_session :: session where
  "new_session = \<lparr> deleted = [], dirty = [] \<rparr>"

definition session_delete :: "pubsub_message \<Rightarrow> session \<Rightarrow> session" where
  "session_delete obj s = s \<lparr> deleted := deleted s @ [obj] \<rparr>"

definition session_add :: "pubsub_message \<Rightarrow> session \<Rightarrow> session" where
  "session_add obj s = s \<lparr> dirty := dirty s @ [obj] \<rparr>"

text \<open>An added object replaces the row that has its primary key.\<close>

fun write_rows :: "pubsub_message list \<Rightarrow> pubsub_message list \<Rightarrow> pubsub_message list" where
  "write_rows [] rows = rows"
| "write_rows (obj # objs) rows =
     write_rows objs (map (\<lambda>r. if msg_pk r = msg_pk obj then obj else r) rows)"

text \<open>
  Modelled from the spec: the cascade of a message's deletion is declared on the ORM classes
  of \<^verbatim>\<open>zato.common.odb.model\<close>, whose source is not available. The docstring of
  \<^verbatim>\<open>Delete\<close> says that the deletion cascades to subscriber queues, and the spec that all
  queue entries referencing the message are removed in the same transaction. So a commit
  removes each deleted message, identified by its primary key, together with the queue
  entries that carry its message ID, and then writes the added objects.
\<close>

definition session_commit :: "session \<Rightarrow> world \<Rightarrow> world" where
  "session_commit s w =
     w \<lparr> messages :=
           write_rows (dirty s)
             (filter (\<lambda>r. msg_pk r \<notin> set (map msg_pk (deleted s))) (messages w)),
         enq_messages :=
           filter (\<lambda>q. enq_pub_msg_id q \<notin> set (map pub_msg_id (deleted s))) (enq_messages w),
         events := events w @ [Committed] \<rparr>"

text \<open>\<^verbatim>\<open>Query.one()\<close>: exactly one row, or an exception.\<close>

fun query_one :: "'a list \<Rightarrow> exn + 'a" where
  "query_one [] = Inl NoResultFound"
| "query_one [x] = Inr x"
| "query_one (x # y # xs) = Inl MultipleResultsFound"

definition lock_acquire :: "string \<Rightarrow> world \<Rightarrow> world" where
  "lock_acquire name w = w \<lparr> events := events w @ [LockAcquired name] \<rparr>"

definition lock_release :: "string \<Rightarrow> world \<Rightarrow> world" where
  "lock_release name w = w \<lparr> events := events w @ [LockReleased name] \<rparr>"

subsection \<open>Delete\<close>

text \<open>
  \<^verbatim>\<open>Delete.handle\<close>. The two \<^verbatim>\<open>filter\<close> calls on each query are kept as they are written.
  The body of \<^verbatim>\<open>with self.lock(...)\<close> runs between the acquisition and the release of the
  lock; acquiring the lock is taken to succeed.
\<close>

definition Delete_handle :: "world \<Rightarrow> nat \<Rightarrow> string \<Rightarrow> (exn + unit) \<times> world" where
  "Delete_handle w input_cluster_id input_msg_id =
     (case query_first
             (filter (\<lambda>m. pub_msg_id m = input_msg_id)
               (filter (\<lambda>m. cluster_id m = input_cluster_id) (messages w))) of
        None \<Rightarrow> (Inl NotFound, w)
      | Some ps_msg \<Rightarrow>
          (case query_one
                  (filter (\<lambda>t. topic_pk t = topic_id ps_msg)
                    (filter (\<lambda>t. topic_cluster_id t = input_cluster_id) (topics w))) of
             Inl e \<Rightarrow> (Inl e, w)
           | Inr ps_topic \<Rightarrow>
               (let name = ''zato.pubsub.publish.'' @ topic_name ps_topic;
                    w1 = lock_acquire name w;
                    s = session_delete ps_msg new_session;
                    w2 = session_commit s w1;
                    w3 = lock_release name w2
                in (Inr (), w3))))"

subsection \<open>The update services\<close>

text \<open>The request of \<^verbatim>\<open>_Update\<close>: its required and optional inputs.\<close>

record update_input =
  in_cluster_id :: nat
  in_msg_id :: string
  in_mime_type :: string
  in_data :: string
  in_expiration :: "int option"
  in_correl_id :: "string option"
  in_in_reply_to :: "string option"
  in_priority :: "int option"
  in_exp_from_now :: bool

text \<open>The response of \<^verbatim>\<open>_Update\<close>; the optional outputs are unset on a miss.\<close>

record update_payload =
  out_msg_id :: string
  out_found :: bool
  out_size :: "nat option"
  out_expiration_time :: "string option"

text \<open>
  What \<^verbatim>\<open>_Update.handle\<close> takes from elsewhere and is a parameter here:
  \<^verbatim>\<open>get_expiration\<close> and \<^verbatim>\<open>get_priority\<close> of \<^verbatim>\<open>zato.server.pubsub\<close> (either may reject the
  input), the value that \<^verbatim>\<open>utcnow_as_ms()\<close> returns when the handler calls it, the two prefix
  lengths of \<^verbatim>\<open>self.pubsub\<close> and the UTF-8 encoding of a string.
\<close>

record update_env =
  get_expiration :: "update_input \<Rightarrow> exn + int option"
  get_priority :: "update_input \<Rightarrow> exn + int"
  utcnow_as_ms :: real
  data_prefix_len :: nat
  data_prefix_short_len :: nat
  encode_utf8 :: "string \<Rightarrow> string"

text \<open>Python truthiness of an optional integer: \<^verbatim>\<open>None\<close> and \<^verbatim>\<open>0\<close> are false.\<close>

fun truthy_int :: "int option \<Rightarrow> bool" where
  "truthy_int None = False"
| "truthy_int (Some n) = (n \<noteq> 0)"

text \<open>
  The assignments of \<^verbatim>\<open>_Update.handle\<close> to the attributes of \<^verbatim>\<open>item\<close>, from
  \<^verbatim>\<open>item.data = ...\<close> to the end of the \<^verbatim>\<open>if item.expiration\<close> statement. The division
  \<^verbatim>\<open>item.expiration / 1000.0\<close> is a float division.
\<close>

definition Update_set_fields :: "update_env \<Rightarrow> update_input \<Rightarrow> pubsub_message \<Rightarrow> exn + pubsub_message" where
  "Update_set_fields env input item0 =
     (case get_expiration env input of
        Inl e \<Rightarrow> Inl e
      | Inr expn \<Rightarrow>
          (case get_priority env input of
             Inl e \<Rightarrow> Inl e
           | Inr prio \<Rightarrow>
               (let item = item0 \<lparr>
                      data := encode_utf8 env (in_data input),
                      data_prefix := encode_utf8 env (take (data_prefix_len env) (in_data input)),
                      data_prefix_short :=
                        encode_utf8 env (take (data_prefix_short_len env) (in_data input)),
                      msg_size := length (in_data input),
                      expiration := expn,
                      priority := prio,
                      pub_correl_id := in_correl_id input,
                      in_reply_to := in_in_reply_to input,
                      mime_type := in_mime_type input \<rparr>
                in Inr (if truthy_int (expiration item)
                        then (let from_time = (if in_exp_from_now input then utcnow_as_ms env
                                               else pub_time item)
                              in item \<lparr> expiration_time :=
                                          Some (from_time + real_of_int (the (expiration item)) / 1000) \<rparr>)
                        else item \<lparr> expiration_time := None \<rparr>))))"

text \<open>
  The two subclasses. Both declare \<^verbatim>\<open>_get_item\<close> and \<^verbatim>\<open>_save_item\<close> with two parameters
  after \<^verbatim>\<open>self\<close>. A call with another number of arguments raises \<^verbatim>\<open>TypeError\<close> before the
  body runs.
\<close>

datatype update_service = UpdateGD | UpdateNonGD

fun message_update_has_gd :: "update_service \<Rightarrow> bool" where
  "message_update_has_gd UpdateGD = True"
| "message_update_has_gd UpdateNonGD = False"

datatype arg = ArgInput update_input | ArgItem pubsub_message | ArgSession session

definition call_method :: "(arg \<Rightarrow> arg \<Rightarrow> 'r) \<Rightarrow> arg list \<Rightarrow> 'r \<Rightarrow> 'r" where
  "call_method body args type_error =
     (case args of [a, b] \<Rightarrow> body a b | _ \<Rightarrow> type_error)"

text \<open>
  \<^verbatim>\<open>UpdateGD._get_item\<close> runs its query and binds the row to a local name; the body has no
  \<^verbatim>\<open>return\<close>, so the call evaluates to \<^verbatim>\<open>None\<close>. The body of \<^verbatim>\<open>UpdateNonGD._get_item\<close> is
  the undefined name \<^verbatim>\<open>zzz\<close>.
\<close>

fun get_item :: "update_service \<Rightarrow> arg \<Rightarrow> arg \<Rightarrow> world \<Rightarrow> exn + pubsub_message option" where
  "get_item UpdateGD (ArgInput input) (ArgSession s) w =
     (let item = query_first
                   (filter (\<lambda>m. pub_msg_id m = in_msg_id input)
                     (filter (\<lambda>m. cluster_id m = in_cluster_id input) (messages w)))
      in Inr None)"
| "get_item UpdateGD _ _ w = Inl AttributeError"
| "get_item UpdateNonGD _ _ w = Inl NameError"

text \<open>
  \<^verbatim>\<open>UpdateGD._save_item\<close> adds the item to the session and commits. The body of
  \<^verbatim>\<open>UpdateNonGD._save_item\<close> is the undefined name \<^verbatim>\<open>qqq\<close>.
\<close>

fun save_item :: "update_service \<Rightarrow> arg \<Rightarrow> arg \<Rightarrow> world \<Rightarrow> (exn + unit) \<times> world" where
  "save_item UpdateGD (ArgItem item) (ArgSession s) w =
     (Inr (), session_commit (session_add item s) w)"
| "save_item UpdateGD _ _ w = (Inl AttributeError, w)"
| "save_item UpdateNonGD _ _ w = (Inl NameError, w)"

text \<open>
  \<^verbatim>\<open>_Update.handle\<close>, the whole method. The first statement after the assignment of
  \<^verbatim>\<open>msg_id\<close> is
  \<^verbatim>\<open>session = self.odb.session() if self._message_update_has_gd else session\<close>: without GD it
  reads the local name \<^verbatim>\<open>session\<close> before any assignment to it. With GD the handler goes on
  to \<^verbatim>\<open>self._get_item(input)\<close>, a call with one argument, then to the test \<^verbatim>\<open>if not item\<close>,
  the assignments to the item, \<^verbatim>\<open>self._save_item(item, session)\<close> and the response. The
  \<^verbatim>\<open>finally\<close> clause closes the session, which changes no table.
\<close>

definition Update_handle ::
  "update_service \<Rightarrow> (real \<Rightarrow> string) \<Rightarrow> update_env \<Rightarrow> world \<Rightarrow> update_input \<Rightarrow>
   (exn + update_payload) \<times> world" where
  "Update_handle svc datetime_from_ms env w input =
     (if message_update_has_gd svc
      then (let s = new_session
            in (case call_method (get_item svc) [ArgInput input] (\<lambda>w. Inl TypeError) w of
                  Inl e \<Rightarrow> (Inl e, w)
                | Inr None \<Rightarrow>
                    (Inr \<lparr> out_msg_id = in_msg_id input, out_found = False,
                           out_size = None, out_expiration_time = None \<rparr>, w)
                | Inr (Some item0) \<Rightarrow>
                    (case Update_set_fields env input item0 of
                       Inl e \<Rightarrow> (Inl e, w)
                     | Inr item \<Rightarrow>
                         (case call_method (save_item svc) [ArgItem item, ArgSession s]
                                 (\<lambda>w. (Inl TypeError, w)) w of
                            (Inl e, w') \<Rightarrow> (Inl e, w')
                          | (Inr u, w') \<Rightarrow>
                              (Inr \<lparr> out_msg_id = in_msg_id input, out_found = True,
                                     out_size = Some (msg_size item),
                                     out_expiration_time =
                                       (if truthy_float (expiration_time item)
                                        then Some (datetime_from_ms
                                                     (the (expiration_time item) * 1000))
                                        else None) \<rparr>, w')))))
      else (Inl UnboundLocalError, w))"

subsection \<open>The non-GD store: messages in the RAM of one server\<close>

text \<open>
  A non-GD message is a Python dictionary. Dictionaries are objects: the backlog and a
  handler's local names hold references to them, and an assignment through one reference
  is seen through every other. So dictionaries live in a heap, a reference is an index
  into it, and every dictionary operation of the source names the reference it goes
  through.
\<close>

datatype pyval = PNone | PBool bool | PInt int | PFloat real | PStr string

type_synonym pydict = "string \<Rightarrow> pyval option"

type_synonym heap = "pydict list"

record server =
  objects :: heap
  sync_backlog :: "string \<Rightarrow> nat option"

text \<open>Truthiness of a value, as \<^verbatim>\<open>if expiration_time:\<close> tests it.\<close>

fun truthy :: "pyval \<Rightarrow> bool" where
  "truthy PNone = False"
| "truthy (PBool b) = b"
| "truthy (PInt n) = (n \<noteq> 0)"
| "truthy (PFloat x) = (x \<noteq> 0)"
| "truthy (PStr s) = (s \<noteq> [])"

text \<open>
  \<^verbatim>\<open>v * 1000.0\<close>: numbers are multiplied as floats (a \<^verbatim>\<open>bool\<close> is the integer 0 or 1);
  \<^verbatim>\<open>None\<close> and strings raise \<^verbatim>\<open>TypeError\<close>.
\<close>

fun mul_float :: "pyval \<Rightarrow> real \<Rightarrow> exn + real" where
  "mul_float (PFloat x) y = Inr (x * y)"
| "mul_float (PInt n) y = Inr (real_of_int n * y)"
| "mul_float (PBool b) y = Inr ((if b then 1 else 0) * y)"
| "mul_float PNone y = Inl TypeError"
| "mul_float (PStr s) y = Inl TypeError"

text \<open>
  Statements that read and write the heap and may raise: the result is the exception or the
  value, with the heap as the statement left it. \<open>and_then\<close> runs the next statement unless
  the first one raised.
\<close>

type_synonym 'a stmt = "heap \<Rightarrow> (exn + 'a) \<times> heap"

definition and_then :: "'a stmt \<Rightarrow> ('a \<Rightarrow> 'b stmt) \<Rightarrow> 'b stmt" where
  "and_then m f h = (case m h of (Inl e, h') \<Rightarrow> (Inl e, h') | (Inr x, h') \<Rightarrow> f x h')"

definition pass :: "unit stmt" where
  "pass h = (Inr (), h)"

definition result_of :: "exn + 'a \<Rightarrow> 'a stmt" where
  "result_of r h = (r, h)"

text \<open>\<^verbatim>\<open>deepcopy(msg)\<close>: a new dictionary with the same items (the values are immutable).\<close>

definition deepcopy :: "nat \<Rightarrow> nat stmt" where
  "deepcopy a h = (Inr (length h), h @ [h ! a])"

text \<open>\<^verbatim>\<open>d.pop(k)\<close>, \<^verbatim>\<open>d.pop(k, default)\<close>, \<^verbatim>\<open>d[k]\<close> and \<^verbatim>\<open>d[k] = v\<close> on the dictionary at \<open>a\<close>.\<close>

definition dict_pop :: "nat \<Rightarrow> string \<Rightarrow> pyval stmt" where
  "dict_pop a k h =
     (case (h ! a) k of
        None \<Rightarrow> (Inl KeyError, h)
      | Some v \<Rightarrow> (Inr v, h[a := (h ! a)(k := None)]))"

definition dict_pop_default :: "nat \<Rightarrow> string \<Rightarrow> pyval \<Rightarrow> pyval stmt" where
  "dict_pop_default a k d h =
     (case (h ! a) k of
        None \<Rightarrow> (Inr d, h)
      | Some v \<Rightarrow> (Inr v, h[a := (h ! a)(k := None)]))"

definition dict_getitem :: "nat \<Rightarrow> string \<Rightarrow> pyval stmt" where
  "dict_getitem a k h =
     (case (h ! a) k of None \<Rightarrow> (Inl KeyError, h) | Some v \<Rightarrow> (Inr v, h))"

definition dict_setitem :: "nat \<Rightarrow> string \<Rightarrow> pyval \<Rightarrow> unit stmt" where
  "dict_setitem a k v h = (Inr (), h[a := (h ! a)(k \<mapsto> v)])"

text \<open>The items of the dictionary at \<open>a\<close>, as the response payload carries them.\<close>

definition dict_items :: "nat \<Rightarrow> pydict stmt" where
  "dict_items a h = (Inr (h ! a), h)"

text \<open>
  Modelled from the spec: \<^verbatim>\<open>sync_backlog.get_message_by_id\<close> belongs to the in-RAM backlog
  of \<^verbatim>\<open>zato.server.pubsub\<close>, whose source is not available. The spec gives
  \<open>get_by_id(msg_id)\<close> as returning the message or failing with \<open>NotFound\<close>. What is returned
  is the backlog's own dictionary, not a copy.
\<close>

definition get_message_by_id :: "server \<Rightarrow> string \<Rightarrow> exn + nat" where
  "get_message_by_id srv msg_id =
     (case sync_backlog srv msg_id of None \<Rightarrow> Inl NotFound | Some a \<Rightarrow> Inr a)"

text \<open>
  \<^verbatim>\<open>GetFromServerTopicNonGD.handle\<close>. \<^verbatim>\<open>datetime_from_ms\<close> is a parameter, and so is
  \<open>endpoint_name\<close>, which stands for \<^verbatim>\<open>self.pubsub.get_endpoint_by_id(...).name\<close>.
\<close>

definition GetFromServerTopicNonGD_handle ::
  "(real \<Rightarrow> string) \<Rightarrow> (pyval \<Rightarrow> exn + string) \<Rightarrow> server \<Rightarrow> string \<Rightarrow> (exn + pydict) \<times> server" where
  "GetFromServerTopicNonGD_handle datetime_from_ms endpoint_name srv input_msg_id =
     (case get_message_by_id srv input_msg_id of
        Inl e \<Rightarrow> (Inl e, srv)
      | Inr orig \<Rightarrow>
          (case
             (and_then (deepcopy orig) (\<lambda>msg.
              and_then (dict_pop msg ''pub_msg_id'') (\<lambda>v.
              and_then (dict_setitem msg ''msg_id'' v) (\<lambda>_.
              and_then (dict_pop_default msg ''pub_correl_id'' PNone) (\<lambda>v.
              and_then (dict_setitem msg ''correl_id'' v) (\<lambda>_.
              and_then (dict_getitem msg ''pub_time'') (\<lambda>v.
              and_then (result_of (mul_float v 1000)) (\<lambda>ms.
              and_then (dict_setitem msg ''pub_time'' (PStr (datetime_from_ms ms))) (\<lambda>_.
              and_then (dict_pop_default msg ''expiration_time'' PNone) (\<lambda>expiration_time.
              and_then (if truthy expiration_time
                        then and_then (result_of (mul_float expiration_time 1000)) (\<lambda>ms.
                             dict_setitem msg ''expiration_time'' (PStr (datetime_from_ms ms)))
                        else pass) (\<lambda>_.
              and_then (dict_pop msg ''published_by_id'') (\<lambda>v.
              and_then (dict_setitem msg ''endpoint_id'' v) (\<lambda>_.
              and_then (dict_getitem msg ''endpoint_id'') (\<lambda>v.
              and_then (result_of (endpoint_name v)) (\<lambda>name.
              and_then (dict_setitem msg ''endpoint_name'' (PStr name)) (\<lambda>_.
              dict_items msg))))))))))))))))
             (objects srv) of
             (r, h) \<Rightarrow> (r, srv \<lparr> objects := h \<rparr>)))"

subsection \<open>Deleting a non-GD message\<close>

text \<open>A response payload with named outputs; a service with no outputs answers \<open>[]\<close>.\<close>

type_synonym payload = "(string \<times> pyval) list"

text \<open>
  \<^verbatim>\<open>DeleteNonGDMessage.handle\<close>: one call of \<^verbatim>\<open>sync_backlog.delete_msg_by_id\<close>; the service
  declares no output. \<^verbatim>\<open>delete_msg_by_id\<close> belongs to the backlog class, whose source is not
  available, and the spec leaves open what it does with an ID that is not in the backlog.
  It is a parameter here, one that may raise.
\<close>

definition DeleteNonGDMessage_handle ::
  "(server \<Rightarrow> string \<Rightarrow> exn + server) \<Rightarrow> server \<Rightarrow> string \<Rightarrow> (exn + payload) \<times> server" where
  "DeleteNonGDMessage_handle delete_msg_by_id srv input_msg_id =
     (case delete_msg_by_id srv input_msg_id of
        Inl e \<Rightarrow> (Inl e, srv)
      | Inr srv' \<Rightarrow> (Inr [], srv'))"

text \<open>
  Modelled from the spec: \<^verbatim>\<open>self.servers[name].invoke(service, request, pid=pid)\<close> is the
  remote dispatch of the surrounding server. The spec gives it as a call to an addressed
  process that returns the response of the service or fails, and the failure for a process
  that cannot be reached as a communication error.
\<close>

definition invoke ::
  "(server \<Rightarrow> 'q \<Rightarrow> (exn + 'r) \<times> server) \<Rightarrow> (string \<times> nat \<Rightarrow> server option) \<Rightarrow> string \<Rightarrow> nat \<Rightarrow> 'q \<Rightarrow>
   (exn + 'r) \<times> (string \<times> nat \<Rightarrow> server option)" where
  "invoke service servers name pid request =
     (case servers (name, pid) of
        None \<Rightarrow> (Inl CommunicationFailure, servers)
      | Some srv \<Rightarrow>
          (case service srv request of (r, srv') \<Rightarrow> (r, servers((name, pid) \<mapsto> srv'))))"

text \<open>
  \<^verbatim>\<open>DeleteNonGD.handle\<close>: the response of the invoked service is dropped, and the service
  declares no output of its own.
\<close>

definition DeleteNonGD_handle ::
  "(server \<Rightarrow> string \<Rightarrow> exn + server) \<Rightarrow> (string \<times> nat \<Rightarrow> server option) \<Rightarrow> nat \<Rightarrow> string \<Rightarrow> nat \<Rightarrow>
   string \<Rightarrow> (exn + payload) \<times> (string \<times> nat \<Rightarrow> server option)" where
  "DeleteNonGD_handle delete_msg_by_id servers input_cluster_id input_server_name input_server_pid
     input_msg_id =
     (case invoke (DeleteNonGDMessage_handle delete_msg_by_id) servers input_server_name
             input_server_pid input_msg_id of
        (Inl e, servers') \<Rightarrow> (Inl e, servers')
      | (Inr response, servers') \<Rightarrow> (Inr [], servers'))"

subsection \<open>The client protocol: subscribe, unsubscribe, publish, receive\<close>

text \<open>
  Modelled from the spec: the services behind the REST channels that \<^verbatim>\<open>test_pubapi.py\<close>
  calls (\<^verbatim>\<open>POST\<close> and \<^verbatim>\<open>DELETE\<close> on the subscription path, \<^verbatim>\<open>POST\<close> and \<^verbatim>\<open>PATCH\<close> on the
  topic path) have no source available; their test has. The spec gives the protocol
  as a state machine for each pair of a subscriber credential and a topic:
  \<^item> \<open>Subscribe\<close> answers with a subscription key and a queue depth, or with an empty result
    when the caller is subscribed already;
  \<^item> \<open>Unsubscribe\<close> answers with an empty result, also when the caller is not subscribed;
  \<^item> \<open>Publish\<close> allocates a message ID, stores the message and answers with the ID;
  \<^item> \<open>Receive\<close> answers with the messages of the topic for the caller's active
    subscription, the most recently published one first (the test names the order
    Last-In-First-Out, and finds a message published before the subscription too).
  The generators of subscription keys and message IDs are parameters. The answer to
  \<open>Receive\<close> without a subscription is the error the test file records for that case.
\<close>

record subscription =
  sub_credential :: string
  sub_topic :: string
  sub_key :: string

record topic_message =
  tm_topic :: string
  tm_msg_id :: string
  tm_data :: string

text \<open>\<open>published\<close> holds the messages in the order of their publication, the oldest first.\<close>

record pubsub =
  subscriptions :: "subscription list"
  published :: "topic_message list"
  allocated :: nat

definition has_subscription :: "pubsub \<Rightarrow> string \<Rightarrow> string \<Rightarrow> bool" where
  "has_subscription ps credential topic =
     list_ex (\<lambda>s. sub_credential s = credential \<and> sub_topic s = topic) (subscriptions ps)"

definition topic_queue :: "pubsub \<Rightarrow> string \<Rightarrow> topic_message list" where
  "topic_queue ps topic = filter (\<lambda>m. tm_topic m = topic) (published ps)"

definition Subscribe :: "(nat \<Rightarrow> string) \<Rightarrow> pubsub \<Rightarrow> string \<Rightarrow> string \<Rightarrow> (exn + payload) \<times> pubsub" where
  "Subscribe new_sub_key ps credential topic =
     (if has_subscription ps credential topic
      then (Inr [], ps)
      else (let key = new_sub_key (allocated ps)
            in (Inr [(''sub_key'', PStr key),
                     (''queue_depth'', PInt (int (length (topic_queue ps topic))))],
                ps \<lparr> subscriptions :=
                       subscriptions ps @
                         [\<lparr> sub_credential = credential, sub_topic = topic, sub_key = key \<rparr>],
                     allocated := Suc (allocated ps) \<rparr>)))"

definition Unsubscribe :: "pubsub \<Rightarrow> string \<Rightarrow> string \<Rightarrow> (exn + payload) \<times> pubsub" where
  "Unsubscribe ps credential topic =
     (Inr [],
      ps \<lparr> subscriptions :=
             filter (\<lambda>s. \<not> (sub_credential s = credential \<and> sub_topic s = topic))
               (subscriptions ps) \<rparr>)"

definition Publish :: "(nat \<Rightarrow> string) \<Rightarrow> pubsub \<Rightarrow> string \<Rightarrow> string \<Rightarrow> (exn + payload) \<times> pubsub" where
  "Publish new_msg_id ps topic body =
     (let msg_id = new_msg_id (allocated ps)
      in (Inr [(''msg_id'', PStr msg_id)],
          ps \<lparr> published :=
                 published ps @ [\<lparr> tm_topic = topic, tm_msg_id = msg_id, tm_data = body \<rparr>],
               allocated := Suc (allocated ps) \<rparr>))"

definition Receive :: "pubsub \<Rightarrow> string \<Rightarrow> string \<Rightarrow> exn + topic_message list" where
  "Receive ps credential topic =
     (if has_subscription ps credential topic
      then Inr (rev (topic_queue ps topic))
      else Inl NoSubscription)"

text \<open>A run of publications to one topic, each on the state the one before it left.\<close>

fun publish_all :: "(nat \<Rightarrow> string) \<Rightarrow> pubsub \<Rightarrow> string \<Rightarrow> string list \<Rightarrow> pubsub" where
  "publish_all new_msg_id ps topic [] = ps"
| "publish_all new_msg_id ps topic (body # bodies) =
     publish_all new_msg_id (snd (Publish new_msg_id ps topic body)) topic bodies"

subsection \<open>What a statement leaves in place\<close>

text \<open>
  \<open>preserves n m\<close>: the statement \<open>m\<close> keeps the first \<open>n\<close> objects of the heap as they are.
\<close>

definition preserves :: "nat \<Rightarrow> 'a stmt \<Rightarrow> bool" where
  "preserves n m =
     (\<forall>h. n \<le> length h \<longrightarrow> n \<le> length (snd (m h)) \<and> take n (snd (m h)) = take n h)"

section \<open>Concrete stores and requests\<close>

text \<open>
  The stores, requests and helper functions that the evaluations below run the services on.
  \<open>iso_text\<close> stands in for \<^verbatim>\<open>datetime_from_ms\<close>: a table of the ISO form of the instants
  (in milliseconds since the epoch) that the evaluations use.
\<close>

definition iso_text :: "real \<Rightarrow> string" where
  "iso_text ms =
     (if ms = 0 then ''1970-01-01T00:00:00''
      else if ms = 1500000000000 then ''2017-07-14T02:40:00''
      else if ms = 1500000002500 then ''2017-07-14T02:40:02.500000''
      else if ms = 1500000005000 then ''2017-07-14T02:40:05''
      else ''?'')"

definition msg1 :: pubsub_message where
  "msg1 = \<lparr> msg_pk = 1, cluster_id = 1, pub_msg_id = ''zpsm001'', topic_id = 7,
            pub_correl_id = None, in_reply_to = None, pub_time = 1500000000,
            ext_pub_time = Some 0, expiration = Some 5000, expiration_time = Some 1500000005,
            data = ''abc'', data_prefix = ''abc'', data_prefix_short = ''ab'', msg_size = 3,
            priority = 5, mime_type = ''text/plain'' \<rparr>"

definition msg2 :: pubsub_message where
  "msg2 = \<lparr> msg_pk = 2, cluster_id = 1, pub_msg_id = ''zpsm002'', topic_id = 7,
            pub_correl_id = Some ''c2'', in_reply_to = None, pub_time = 1500000000,
            ext_pub_time = Some 1500000000, expiration = Some 0, expiration_time = None,
            data = ''xy'', data_prefix = ''xy'', data_prefix_short = ''xy'', msg_size = 2,
            priority = 5, mime_type = ''text/plain'' \<rparr>"

definition topic7 :: pubsub_topic where
  "topic7 = \<lparr> topic_pk = 7, topic_cluster_id = 1, topic_name = ''/zato/demo/sample'' \<rparr>"

definition world1 :: world where
  "world1 = \<lparr> messages = [msg1, msg2], topics = [topic7],
               enq_messages =
                 [\<lparr> enq_pk = 1, enq_pub_msg_id = ''zpsm001'', enq_sub_key = ''zpsk.a'' \<rparr>,
                  \<lparr> enq_pk = 2, enq_pub_msg_id = ''zpsm002'', enq_sub_key = ''zpsk.a'' \<rparr>,
                  \<lparr> enq_pk = 3, enq_pub_msg_id = ''zpsm001'', enq_sub_key = ''zpsk.b'' \<rparr>],
               events = [] \<rparr>"

definition env1 :: update_env where
  "env1 = \<lparr> get_expiration = (\<lambda>input. Inr (in_expiration input)),
             get_priority = (\<lambda>input. Inr (case in_priority input of None \<Rightarrow> 5 | Some p \<Rightarrow> p)),
             utcnow_as_ms = 1600000000,
             data_prefix_len = 4,
             data_prefix_short_len = 2,
             encode_utf8 = (\<lambda>s. s) \<rparr>"

definition request_absent :: update_input where
  "request_absent = \<lparr> in_cluster_id = 1, in_msg_id = ''zpsm999'', in_mime_type = ''text/plain'',
                       in_data = ''hello'', in_expiration = Some 2500, in_correl_id = None,
                       in_in_reply_to = None, in_priority = None, in_exp_from_now = False \<rparr>"

definition request_present :: update_input where
  "request_present = request_absent \<lparr> in_msg_id := ''zpsm001'' \<rparr>"


definition nongd_msg3 :: pydict where
  "nongd_msg3 = [''pub_msg_id'' \<mapsto> PStr ''zpsm003'', ''pub_time'' \<mapsto> PFloat 1500000000,
                 ''expiration_time'' \<mapsto> PNone, ''published_by_id'' \<mapsto> PInt 2,
                 ''data'' \<mapsto> PStr ''abc'']"

definition nongd_msg4 :: pydict where
  "nongd_msg4 = [''pub_msg_id'' \<mapsto> PStr ''zpsm004'', ''pub_correl_id'' \<mapsto> PStr ''c4'',
                 ''pub_time'' \<mapsto> PFloat 1500000000,
                 ''expiration_time'' \<mapsto> PFloat 1500000005, ''published_by_id'' \<mapsto> PInt 2,
                 ''data'' \<mapsto> PStr ''xyz'']"

definition server1 :: server where
  "server1 = \<lparr> objects = [nongd_msg3, nongd_msg4],
                sync_backlog = [''zpsm003'' \<mapsto> 0, ''zpsm004'' \<mapsto> 1] \<rparr>"

definition endpoint_names :: "pyval \<Rightarrow> exn + string" where
  "endpoint_names v = (if v = PInt 2 then Inr ''zato.pubsub.demo.endpoint'' else Inl KeyError)"

definition pubsub1 :: pubsub where
  "pubsub1 = \<lparr> subscriptions =
                  [\<lparr> sub_credential = ''pubsub.demo'', sub_topic = ''/zato/demo/sample'',
                     sub_key = ''zpsk.rest.0'' \<rparr>],
                published =
                  [\<lparr> tm_topic = ''/zato/demo/sample'', tm_msg_id = ''zpsm.0'', tm_data = ''old'' \<rparr>,
                   \<lparr> tm_topic = ''/other'', tm_msg_id = ''zpsm.1'', tm_data = ''elsewhere'' \<rparr>],
                allocated = 2 \<rparr>"

definition msg_id_of :: "nat \<Rightarrow> string" where
  "msg_id_of n = ''zpsm.'' @ replicate n CHR ''x''"

definition sub_key_of :: "nat \<Rightarrow> string" where
  "sub_key_of n = ''zpsk.rest.'' @ replicate n CHR ''x''"

section \<open>Properties of the GD services\<close>

subsection \<open>Has\<close>

lemma Has_handle_iff:
  "Has_handle scid rows icid mid = (\<exists>r\<in>set rows. pub_msg_id r = mid \<and> cluster_id r = scid)"
  by (simp add: Has_handle_def list_ex_iff)

text \<open>
  C4. The claim: \<^verbatim>\<open>Has\<close> answers \<open>found = true\<close> exactly when a GD message with the requested
  message ID exists under the cluster ID of the request. The handler filters on the cluster
  of the server instead. On a server of cluster 1 whose table holds one message of cluster 1,
  a request for that message ID under cluster 2 is answered with \<open>found = true\<close>, although
  the query of the store by cluster 2 and that ID, the one \<^verbatim>\<open>GetFromTopicGD\<close> runs, finds no row.
\<close>

theorem Has_handle_ignores_input_cluster:
  "Has_handle 1 [msg1] 2 ''zpsm001'' = True \<and> pubsub_message_query [msg1] 2 ''zpsm001'' = []"
  by (simp add: Has_handle_def pubsub_message_query_def msg1_def)

subsection \<open>GetFromTopicGD\<close>

text \<open>
  C2, as stated, fails: a stored \<^verbatim>\<open>ext_pub_time\<close> of zero is present, it is the epoch, and the
  handler renders it as the empty string, not as the timestamp of the epoch.
\<close>

theorem GetFromTopicGD_handle_zero_ext_pub_time:
  "ext_pub_time msg1 = Some 0 \<and>
   iso_text (0 * 1000) = ''1970-01-01T00:00:00'' \<and>
   GetFromTopicGD_handle iso_text [msg1] 1 ''zpsm001'' =
     Inr \<lparr> gd_item = msg1, gd_pub_time = ''2017-07-14T02:40:00'', gd_ext_pub_time = '''',
           gd_expiration_time = ''2017-07-14T02:40:05'' \<rparr>"
  by (simp add: GetFromTopicGD_handle_def pubsub_message_query_def msg1_def iso_text_def)

text \<open>
  C2, amended. If a message with the requested ID exists under the requested cluster,
  \<^verbatim>\<open>GetFromTopicGD\<close> returns such a message, with \<^verbatim>\<open>pub_time\<close> translated from epoch seconds,
  and with \<^verbatim>\<open>ext_pub_time\<close> and \<^verbatim>\<open>expiration_time\<close> translated likewise when they are set and
  not zero, and rendered as the empty string when they are unset or zero. If no such message
  exists, it raises \<^verbatim>\<open>NotFound\<close>.
\<close>

theorem GetFromTopicGD_handle_result:
  "(if \<exists>r\<in>set rows. cluster_id r = c \<and> pub_msg_id r = m
    then \<exists>item\<in>set rows. cluster_id item = c \<and> pub_msg_id item = m \<and>
           GetFromTopicGD_handle dfm rows c m =
             Inr \<lparr> gd_item = item,
                   gd_pub_time = dfm (pub_time item * 1000),
                   gd_ext_pub_time =
                     (case ext_pub_time item of
                        None \<Rightarrow> ''''
                      | Some t \<Rightarrow> if t = 0 then '''' else dfm (t * 1000)),
                   gd_expiration_time =
                     (case expiration_time item of
                        None \<Rightarrow> ''''
                      | Some t \<Rightarrow> if t = 0 then '''' else dfm (t * 1000)) \<rparr>
    else GetFromTopicGD_handle dfm rows c m = Inl NotFound)"
proof (cases "pubsub_message_query rows c m")
  case Nil
  then have "\<not> (\<exists>r\<in>set rows. cluster_id r = c \<and> pub_msg_id r = m)"
    by (auto simp: pubsub_message_query_def filter_empty_conv)
  with Nil show ?thesis by (simp add: GetFromTopicGD_handle_def)
next
  case (Cons item rest)
  then have "item \<in> set (pubsub_message_query rows c m)" by simp
  then have in_rows: "item \<in> set rows" "cluster_id item = c" "pub_msg_id item = m"
    by (auto simp: pubsub_message_query_def)
  have "GetFromTopicGD_handle dfm rows c m =
             Inr \<lparr> gd_item = item,
                   gd_pub_time = dfm (pub_time item * 1000),
                   gd_ext_pub_time =
                     (case ext_pub_time item of
                        None \<Rightarrow> ''''
                      | Some t \<Rightarrow> if t = 0 then '''' else dfm (t * 1000)),
                   gd_expiration_time =
                     (case expiration_time item of
                        None \<Rightarrow> ''''
                      | Some t \<Rightarrow> if t = 0 then '''' else dfm (t * 1000)) \<rparr>"
    using Cons by (simp add: GetFromTopicGD_handle_def split: option.splits)
  with in_rows show ?thesis by auto
qed

theorem GetFromTopicGD_handle_result_witness:
  "(\<exists>r\<in>set [msg1, msg2]. cluster_id r = 1 \<and> pub_msg_id r = ''zpsm002'') \<and>
   GetFromTopicGD_handle iso_text [msg1, msg2] 1 ''zpsm002'' \<noteq> Inl NotFound \<and>
   \<not> (\<exists>r\<in>set [msg1, msg2]. cluster_id r = 2 \<and> pub_msg_id r = ''zpsm002'') \<and>
   GetFromTopicGD_handle iso_text [msg1, msg2] 2 ''zpsm002'' = Inl NotFound"
proof -
  have a: "\<exists>r\<in>set [msg1, msg2]. cluster_id r = 1 \<and> pub_msg_id r = ''zpsm002''"
    by (simp add: msg1_def msg2_def)
  have b: "\<not> (\<exists>r\<in>set [msg1, msg2]. cluster_id r = 2 \<and> pub_msg_id r = ''zpsm002'')"
    by (simp add: msg1_def msg2_def)
  from a GetFromTopicGD_handle_result [of "[msg1, msg2]" 1 "''zpsm002''" iso_text]
  have "GetFromTopicGD_handle iso_text [msg1, msg2] 1 ''zpsm002'' \<noteq> Inl NotFound"
    by auto
  moreover from b GetFromTopicGD_handle_result [of "[msg1, msg2]" 2 "''zpsm002''" iso_text]
  have "GetFromTopicGD_handle iso_text [msg1, msg2] 2 ''zpsm002'' = Inl NotFound"
    by simp
  ultimately show ?thesis using a b by blast
qed

section \<open>Properties of the update services\<close>

lemma Update_handle_always_raises:
  "Update_handle svc dfm env w input =
     (Inl (if message_update_has_gd svc then TypeError else UnboundLocalError), w)"
  by (cases svc) (simp_all add: Update_handle_def call_method_def)

text \<open>
  C1. The claim: an update of a message that does not exist answers \<open>found = false\<close> and does
  not raise, and an update of a message that exists overwrites its fields and answers
  \<open>found = true\<close>. The handler raises on every request. With GD it calls
  \<^verbatim>\<open>self._get_item(input)\<close>, one argument short of the two that \<^verbatim>\<open>UpdateGD._get_item\<close>
  declares, which is a \<^verbatim>\<open>TypeError\<close>; without GD it reads the local name \<^verbatim>\<open>session\<close> before
  any assignment, which is an \<^verbatim>\<open>UnboundLocalError\<close>. The store holds \<open>zpsm001\<close> and does not
  hold \<open>zpsm999\<close>.
\<close>

theorem Update_handle_raises:
  "Update_handle UpdateGD iso_text env1 world1 request_absent = (Inl TypeError, world1) \<and>
   Update_handle UpdateNonGD iso_text env1 world1 request_absent = (Inl UnboundLocalError, world1) \<and>
   Update_handle UpdateGD iso_text env1 world1 request_present = (Inl TypeError, world1) \<and>
   Update_handle UpdateNonGD iso_text env1 world1 request_present = (Inl UnboundLocalError, world1)"
  by (simp add: Update_handle_def call_method_def)


section \<open>Properties of Delete\<close>

lemma filter_unique_key:
  "distinct (map f xs) \<Longrightarrow> x \<in> set xs \<Longrightarrow> P x \<Longrightarrow> filter (\<lambda>y. P y \<and> f y = f x) xs = [x]"
proof (induction xs)
  case Nil
  then show ?case by simp
next
  case (Cons y ys)
  show ?case
  proof (cases "y = x")
    case True
    with Cons.prems have "f x \<notin> f ` set ys" by simp
    then have "\<forall>z\<in>set ys. f z \<noteq> f x" by (metis image_eqI)
    then have "filter (\<lambda>y. P y \<and> f y = f x) ys = []"
      by (simp add: filter_empty_conv)
    with True Cons.prems show ?thesis by simp
  next
    case False
    with Cons.prems have "x \<in> set ys" by simp
    with Cons.prems have "f y \<noteq> f x" by force
    with Cons \<open>x \<in> set ys\<close> show ?thesis by simp
  qed
qed

lemma Delete_handle_absent:
  assumes "\<not> (\<exists>r\<in>set (messages w). cluster_id r = c \<and> pub_msg_id r = m)"
  shows "Delete_handle w c m = (Inl NotFound, w)"
proof -
  from assms have "filter (\<lambda>r. cluster_id r = c \<and> pub_msg_id r = m) (messages w) = []"
    by (auto simp: filter_empty_conv)
  then show ?thesis by (simp add: Delete_handle_def)
qed

lemma Delete_handle_present:
  assumes row: "ps_msg \<in> set (messages w)" "cluster_id ps_msg = c" "pub_msg_id ps_msg = m"
    and uniq: "distinct (map pub_msg_id (messages w))"
    and topic: "filter (\<lambda>t. topic_cluster_id t = c \<and> topic_pk t = topic_id ps_msg) (topics w)
                  = [ps_topic]"
  shows "Delete_handle w c m =
           (Inr (),
            w \<lparr> messages := filter (\<lambda>r. msg_pk r \<noteq> msg_pk ps_msg) (messages w),
                enq_messages := filter (\<lambda>q. enq_pub_msg_id q \<noteq> m) (enq_messages w),
                events := events w @
                  [LockAcquired (''zato.pubsub.publish.'' @ topic_name ps_topic), Committed,
                   LockReleased (''zato.pubsub.publish.'' @ topic_name ps_topic)] \<rparr>)"
proof -
  have "filter (\<lambda>r. cluster_id r = c \<and> pub_msg_id r = pub_msg_id ps_msg) (messages w) = [ps_msg]"
    using filter_unique_key [OF uniq row(1), of "\<lambda>r. cluster_id r = c"] row(2) by simp
  then have q: "filter (\<lambda>r. cluster_id r = c \<and> pub_msg_id r = m) (messages w) = [ps_msg]"
    using row(3) by simp
  show ?thesis
    by (simp add: Delete_handle_def q topic Let_def lock_acquire_def lock_release_def
        session_commit_def session_delete_def new_session_def row(3))
qed

text \<open>
  C3. If no message with the requested ID exists under the requested cluster, \<^verbatim>\<open>Delete\<close>
  raises \<^verbatim>\<open>NotFound\<close> and leaves the tables as they were. If the message exists (message IDs
  being unique in the table, and the owning topic being in the topic table of that cluster),
  the handler acquires the lock named after the topic, commits one transaction, then
  releases the lock; the transaction removes the message and every queue entry that refers
  to it and nothing else, and a later \<^verbatim>\<open>GetFromTopicGD\<close> for that ID raises \<^verbatim>\<open>NotFound\<close>.
\<close>

theorem Delete_handle_result:
  "(\<not> (\<exists>r\<in>set (messages w). cluster_id r = c \<and> pub_msg_id r = m) \<longrightarrow>
      Delete_handle w c m = (Inl NotFound, w)) \<and>
   (\<forall>ps_msg ps_topic.
      ps_msg \<in> set (messages w) \<and> cluster_id ps_msg = c \<and> pub_msg_id ps_msg = m \<and>
      distinct (map pub_msg_id (messages w)) \<and>
      filter (\<lambda>t. topic_cluster_id t = c \<and> topic_pk t = topic_id ps_msg) (topics w) = [ps_topic]
      \<longrightarrow>
      (\<exists>w'. Delete_handle w c m = (Inr (), w') \<and>
         events w' = events w @
           [LockAcquired (''zato.pubsub.publish.'' @ topic_name ps_topic), Committed,
            LockReleased (''zato.pubsub.publish.'' @ topic_name ps_topic)] \<and>
         messages w' = filter (\<lambda>r. msg_pk r \<noteq> msg_pk ps_msg) (messages w) \<and>
         enq_messages w' = filter (\<lambda>q. enq_pub_msg_id q \<noteq> m) (enq_messages w) \<and>
         topics w' = topics w \<and>
         \<not> (\<exists>r\<in>set (messages w'). pub_msg_id r = m) \<and>
         GetFromTopicGD_handle dfm (messages w') c m = Inl NotFound))"
proof (intro conjI allI impI)
  assume "\<not> (\<exists>r\<in>set (messages w). cluster_id r = c \<and> pub_msg_id r = m)"
  then show "Delete_handle w c m = (Inl NotFound, w)" by (rule Delete_handle_absent)
next
  fix ps_msg ps_topic
  assume h: "ps_msg \<in> set (messages w) \<and> cluster_id ps_msg = c \<and> pub_msg_id ps_msg = m \<and>
      distinct (map pub_msg_id (messages w)) \<and>
      filter (\<lambda>t. topic_cluster_id t = c \<and> topic_pk t = topic_id ps_msg) (topics w) = [ps_topic]"
  define w' where "w' = w \<lparr> messages := filter (\<lambda>r. msg_pk r \<noteq> msg_pk ps_msg) (messages w),
                enq_messages := filter (\<lambda>q. enq_pub_msg_id q \<noteq> m) (enq_messages w),
                events := events w @
                  [LockAcquired (''zato.pubsub.publish.'' @ topic_name ps_topic), Committed,
                   LockReleased (''zato.pubsub.publish.'' @ topic_name ps_topic)] \<rparr>"
  from h have d: "Delete_handle w c m = (Inr (), w')"
    unfolding w'_def by (intro Delete_handle_present) simp_all
  have gone: "\<not> (\<exists>r\<in>set (messages w'). pub_msg_id r = m)"
  proof
    assume "\<exists>r\<in>set (messages w'). pub_msg_id r = m"
    then obtain r where r: "r \<in> set (messages w)" "msg_pk r \<noteq> msg_pk ps_msg" "pub_msg_id r = m"
      by (auto simp: w'_def)
    from h have "inj_on pub_msg_id (set (messages w))" by (simp add: distinct_map)
    with r h have "r = ps_msg" by (auto dest: inj_onD)
    with r show False by simp
  qed
  then have "pubsub_message_query (messages w') c m = []"
    by (auto simp: pubsub_message_query_def filter_empty_conv)
  then have "GetFromTopicGD_handle dfm (messages w') c m = Inl NotFound"
    by (simp add: GetFromTopicGD_handle_def)
  with d gone show "\<exists>w'. Delete_handle w c m = (Inr (), w') \<and>
         events w' = events w @
           [LockAcquired (''zato.pubsub.publish.'' @ topic_name ps_topic), Committed,
            LockReleased (''zato.pubsub.publish.'' @ topic_name ps_topic)] \<and>
         messages w' = filter (\<lambda>r. msg_pk r \<noteq> msg_pk ps_msg) (messages w) \<and>
         enq_messages w' = filter (\<lambda>q. enq_pub_msg_id q \<noteq> m) (enq_messages w) \<and>
         topics w' = topics w \<and>
         \<not> (\<exists>r\<in>set (messages w'). pub_msg_id r = m) \<and>
         GetFromTopicGD_handle dfm (messages w') c m = Inl NotFound"
    by (intro exI [of _ w']) (simp add: w'_def)
qed

theorem Delete_handle_result_witness:
  "\<not> (\<exists>r\<in>set (messages world1). cluster_id r = 1 \<and> pub_msg_id r = ''zpsm999'') \<and>
   Delete_handle world1 1 ''zpsm999'' = (Inl NotFound, world1) \<and>
   msg1 \<in> set (messages world1) \<and> cluster_id msg1 = 1 \<and> pub_msg_id msg1 = ''zpsm001'' \<and>
   distinct (map pub_msg_id (messages world1)) \<and>
   filter (\<lambda>t. topic_cluster_id t = 1 \<and> topic_pk t = topic_id msg1) (topics world1) = [topic7] \<and>
   Delete_handle world1 1 ''zpsm001'' =
     (Inr (),
      world1 \<lparr> messages := [msg2],
               enq_messages := [\<lparr> enq_pk = 2, enq_pub_msg_id = ''zpsm002'', enq_sub_key = ''zpsk.a'' \<rparr>],
               events := [LockAcquired ''zato.pubsub.publish./zato/demo/sample'', Committed,
                          LockReleased ''zato.pubsub.publish./zato/demo/sample''] \<rparr>) \<and>
   GetFromTopicGD_handle iso_text [msg2] 1 ''zpsm001'' = Inl NotFound"
proof -
  have a: "\<not> (\<exists>r\<in>set (messages world1). cluster_id r = 1 \<and> pub_msg_id r = ''zpsm999'')"
    by (simp add: world1_def msg1_def msg2_def)
  have b: "msg1 \<in> set (messages world1) \<and> cluster_id msg1 = 1 \<and> pub_msg_id msg1 = ''zpsm001'' \<and>
     distinct (map pub_msg_id (messages world1)) \<and>
     filter (\<lambda>t. topic_cluster_id t = 1 \<and> topic_pk t = topic_id msg1) (topics world1) = [topic7]"
    by (simp add: world1_def msg1_def msg2_def topic7_def)
  note t = Delete_handle_result [of world1 1 _ iso_text]
  from t [of "''zpsm999''"] a
  have 1: "Delete_handle world1 1 ''zpsm999'' = (Inl NotFound, world1)" by blast
  from t [of "''zpsm001''"] b
  obtain w' where w': "Delete_handle world1 1 ''zpsm001'' = (Inr (), w')"
      "events w' = events world1 @
           [LockAcquired (''zato.pubsub.publish.'' @ topic_name topic7), Committed,
            LockReleased (''zato.pubsub.publish.'' @ topic_name topic7)]"
      "messages w' = filter (\<lambda>r. msg_pk r \<noteq> msg_pk msg1) (messages world1)"
      "enq_messages w' = filter (\<lambda>q. enq_pub_msg_id q \<noteq> ''zpsm001'') (enq_messages world1)"
      "topics w' = topics world1"
      "GetFromTopicGD_handle iso_text (messages w') 1 ''zpsm001'' = Inl NotFound"
    by blast
  have m: "messages w' = [msg2]"
    by (simp add: w'(3) world1_def msg1_def msg2_def)
  have "w' = world1 \<lparr> messages := [msg2],
               enq_messages := [\<lparr> enq_pk = 2, enq_pub_msg_id = ''zpsm002'', enq_sub_key = ''zpsk.a'' \<rparr>],
               events := [LockAcquired ''zato.pubsub.publish./zato/demo/sample'', Committed,
                          LockReleased ''zato.pubsub.publish./zato/demo/sample''] \<rparr>"
    using w'(2,4,5) m by (cases w') (simp add: world1_def topic7_def)
  with w'(1) w'(6) m 1 a b show ?thesis by simp
qed

section \<open>Properties of GetFromServerTopicNonGD\<close>

subsection \<open>The backlog's own message is left as it is\<close>

lemma preserves_and_then:
  assumes "preserves n m" and "\<And>x. preserves n (f x)"
  shows "preserves n (and_then m f)"
  unfolding preserves_def
proof (intro allI impI)
  fix h :: heap
  assume h: "n \<le> length h"
  obtain r h1 where m: "m h = (r, h1)" by (cases "m h")
  from assms(1) h m have h1: "n \<le> length h1" "take n h1 = take n h"
    by (auto simp: preserves_def)
  show "n \<le> length (snd (and_then m f h)) \<and> take n (snd (and_then m f h)) = take n h"
  proof (cases r)
    case (Inl e)
    with m h1 show ?thesis by (simp add: and_then_def)
  next
    case (Inr x)
    from assms(2) [of x] h1 have "n \<le> length (snd (f x h1)) \<and> take n (snd (f x h1)) = take n h"
      by (auto simp: preserves_def)
    with m Inr show ?thesis by (simp add: and_then_def)
  qed
qed

lemma preserves_deepcopy_then:
  assumes "\<And>msg. n \<le> msg \<Longrightarrow> preserves n (f msg)"
  shows "preserves n (and_then (deepcopy a) f)"
  unfolding preserves_def
proof (intro allI impI)
  fix h :: heap
  assume h: "n \<le> length h"
  from assms [of "length h"] h
  have "n \<le> length (snd (f (length h) (h @ [h ! a]))) \<and>
        take n (snd (f (length h) (h @ [h ! a]))) = take n (h @ [h ! a])"
    by (simp add: preserves_def)
  with h show "n \<le> length (snd (and_then (deepcopy a) f h)) \<and>
        take n (snd (and_then (deepcopy a) f h)) = take n h"
    by (simp add: and_then_def deepcopy_def)
qed

lemma preserves_pass: "preserves n pass"
  by (simp add: preserves_def pass_def)

lemma preserves_result_of: "preserves n (result_of r)"
  by (simp add: preserves_def result_of_def)

lemma preserves_dict_getitem: "preserves n (dict_getitem a k)"
  by (simp add: preserves_def dict_getitem_def split: option.splits)

lemma preserves_dict_items: "preserves n (dict_items a)"
  by (simp add: preserves_def dict_items_def)

lemma preserves_dict_setitem: "n \<le> a \<Longrightarrow> preserves n (dict_setitem a k v)"
  by (simp add: preserves_def dict_setitem_def)

lemma preserves_dict_pop: "n \<le> a \<Longrightarrow> preserves n (dict_pop a k)"
  by (simp add: preserves_def dict_pop_def split: option.splits)

lemma preserves_dict_pop_default: "n \<le> a \<Longrightarrow> preserves n (dict_pop_default a k d)"
  by (simp add: preserves_def dict_pop_default_def split: option.splits)

lemma preserves_convert_expiration_time:
  "n \<le> msg \<Longrightarrow>
   preserves n (if truthy et
                then and_then (result_of (mul_float et 1000)) (\<lambda>ms.
                     dict_setitem msg ''expiration_time'' (PStr (dfm ms)))
                else pass)"
  by (cases "truthy et")
     (simp_all add: preserves_and_then preserves_result_of preserves_dict_setitem preserves_pass)

lemma GetFromServerTopicNonGD_handle_prefix:
  "sync_backlog (snd (GetFromServerTopicNonGD_handle dfm en srv m)) = sync_backlog srv \<and>
   take (length (objects srv)) (objects (snd (GetFromServerTopicNonGD_handle dfm en srv m)))
     = objects srv"
proof (cases "get_message_by_id srv m")
  case (Inl e)
  then show ?thesis by (simp add: GetFromServerTopicNonGD_handle_def)
next
  case (Inr orig)
  define body where "body =
             (and_then (deepcopy orig) (\<lambda>msg.
              and_then (dict_pop msg ''pub_msg_id'') (\<lambda>v.
              and_then (dict_setitem msg ''msg_id'' v) (\<lambda>_.
              and_then (dict_pop_default msg ''pub_correl_id'' PNone) (\<lambda>v.
              and_then (dict_setitem msg ''correl_id'' v) (\<lambda>_.
              and_then (dict_getitem msg ''pub_time'') (\<lambda>v.
              and_then (result_of (mul_float v 1000)) (\<lambda>ms.
              and_then (dict_setitem msg ''pub_time'' (PStr (dfm ms))) (\<lambda>_.
              and_then (dict_pop_default msg ''expiration_time'' PNone) (\<lambda>expiration_time.
              and_then (if truthy expiration_time
                        then and_then (result_of (mul_float expiration_time 1000)) (\<lambda>ms.
                             dict_setitem msg ''expiration_time'' (PStr (dfm ms)))
                        else pass) (\<lambda>_.
              and_then (dict_pop msg ''published_by_id'') (\<lambda>v.
              and_then (dict_setitem msg ''endpoint_id'' v) (\<lambda>_.
              and_then (dict_getitem msg ''endpoint_id'') (\<lambda>v.
              and_then (result_of (en v)) (\<lambda>name.
              and_then (dict_setitem msg ''endpoint_name'' (PStr name)) (\<lambda>_.
              dict_items msg))))))))))))))))"
  have "preserves (length (objects srv)) body"
    unfolding body_def
    apply (rule preserves_deepcopy_then)
    apply (intro preserves_and_then preserves_convert_expiration_time preserves_dict_pop
        preserves_dict_pop_default preserves_dict_setitem preserves_dict_getitem
        preserves_result_of preserves_dict_items)
            apply assumption+
    done
  then have t: "take (length (objects srv)) (snd (body (objects srv))) = objects srv"
    by (simp add: preserves_def)
  have "GetFromServerTopicNonGD_handle dfm en srv m =
          (fst (body (objects srv)), srv \<lparr> objects := snd (body (objects srv)) \<rparr>)"
    using Inr unfolding GetFromServerTopicNonGD_handle_def body_def
    by (simp add: case_prod_beta)
  with t show ?thesis by simp
qed

text \<open>
  C7. For a message ID of the backlog, \<^verbatim>\<open>GetFromServerTopicNonGD\<close> leaves the backlog's
  dictionary with the items it had, and likewise every other object that existed before
  the call and the backlog's index: all its \<^verbatim>\<open>pop\<close> calls and assignments go to the copy
  that \<^verbatim>\<open>deepcopy\<close> made. This holds whether the handler returns or raises on the way.
\<close>

theorem GetFromServerTopicNonGD_handle_frame:
  assumes "sync_backlog srv m = Some a" and "a < length (objects srv)"
  shows "sync_backlog (snd (GetFromServerTopicNonGD_handle dfm en srv m)) = sync_backlog srv \<and>
         (\<forall>b<length (objects srv).
            objects (snd (GetFromServerTopicNonGD_handle dfm en srv m)) ! b = objects srv ! b) \<and>
         objects (snd (GetFromServerTopicNonGD_handle dfm en srv m)) ! a = objects srv ! a"
proof -
  let ?srv' = "snd (GetFromServerTopicNonGD_handle dfm en srv m)"
  from GetFromServerTopicNonGD_handle_prefix [of dfm en srv m]
  have b: "sync_backlog ?srv' = sync_backlog srv"
    and t: "take (length (objects srv)) (objects ?srv') = objects srv"
    by simp_all
  have "\<forall>b<length (objects srv). objects ?srv' ! b = objects srv ! b"
  proof (intro allI impI)
    fix b assume "b < length (objects srv)"
    then have "take (length (objects srv)) (objects ?srv') ! b = objects ?srv' ! b" by simp
    with t show "objects ?srv' ! b = objects srv ! b" by simp
  qed
  with b assms(2) show ?thesis by simp
qed

theorem GetFromServerTopicNonGD_handle_frame_witness:
  "sync_backlog server1 ''zpsm004'' = Some 1 \<and> 1 < length (objects server1) \<and>
   objects (snd (GetFromServerTopicNonGD_handle iso_text endpoint_names server1 ''zpsm004'')) ! 1
     = nongd_msg4 \<and>
   sync_backlog (snd (GetFromServerTopicNonGD_handle iso_text endpoint_names server1 ''zpsm004''))
     = sync_backlog server1"
proof -
  have a: "sync_backlog server1 ''zpsm004'' = Some 1" by (simp add: server1_def)
  have b: "1 < length (objects server1)" by (simp add: server1_def)
  from GetFromServerTopicNonGD_handle_frame [OF a b, of iso_text endpoint_names]
  show ?thesis using a b by (simp add: server1_def)
qed

subsection \<open>The reshaped message\<close>

lemma GetFromServerTopicNonGD_handle_absent:
  "sync_backlog srv m = None \<Longrightarrow>
   GetFromServerTopicNonGD_handle dfm en srv m = (Inl NotFound, srv)"
  by (simp add: GetFromServerTopicNonGD_handle_def get_message_by_id_def)

lemma GetFromServerTopicNonGD_handle_present:
  assumes "sync_backlog srv m = Some a"
    and "(objects srv ! a) ''pub_msg_id'' = Some mid"
    and "(objects srv ! a) ''pub_time'' = Some pt" and "mul_float pt 1000 = Inr ms"
    and "(objects srv ! a) ''published_by_id'' = Some eid" and "en eid = Inr name"
    and "\<And>et. (objects srv ! a) ''expiration_time'' = Some et \<Longrightarrow> truthy et \<Longrightarrow>
           mul_float et 1000 = Inr (ems et)"
  shows "fst (GetFromServerTopicNonGD_handle dfm en srv m) =
           Inr ((objects srv ! a)
                 (''pub_msg_id'' := None,
                  ''msg_id'' \<mapsto> mid,
                  ''pub_correl_id'' := None,
                  ''correl_id'' \<mapsto>
                     (case (objects srv ! a) ''pub_correl_id'' of None \<Rightarrow> PNone | Some c \<Rightarrow> c),
                  ''pub_time'' \<mapsto> PStr (dfm ms),
                  ''expiration_time'' :=
                     (case (objects srv ! a) ''expiration_time'' of
                        None \<Rightarrow> None
                      | Some et \<Rightarrow> if truthy et then Some (PStr (dfm (ems et))) else None),
                  ''published_by_id'' := None,
                  ''endpoint_id'' \<mapsto> eid,
                  ''endpoint_name'' \<mapsto> PStr name))"
proof -
  define d where "d = objects srv ! a"
  note facts = assms(2-6) [folded d_def]
  show ?thesis
  proof (cases "d ''expiration_time''")
    case None
    then show ?thesis
      unfolding GetFromServerTopicNonGD_handle_def
      using assms(1) facts
      by (simp add: get_message_by_id_def and_then_def deepcopy_def dict_pop_def
          dict_pop_default_def dict_getitem_def dict_setitem_def dict_items_def result_of_def
          pass_def d_def [symmetric] fun_eq_iff split: option.splits)
  next
    case (Some et)
    show ?thesis
    proof (cases "truthy et")
      case True
      with assms(7) [of et] Some have "mul_float et 1000 = Inr (ems et)" by (simp add: d_def)
      with True Some show ?thesis
        unfolding GetFromServerTopicNonGD_handle_def
        using assms(1) facts
        by (simp add: get_message_by_id_def and_then_def deepcopy_def dict_pop_def
            dict_pop_default_def dict_getitem_def dict_setitem_def dict_items_def result_of_def
            pass_def d_def [symmetric] fun_eq_iff split: option.splits)
    next
      case False
      with Some show ?thesis
        unfolding GetFromServerTopicNonGD_handle_def
        using assms(1) facts
        by (simp add: get_message_by_id_def and_then_def deepcopy_def dict_pop_def
            dict_pop_default_def dict_getitem_def dict_setitem_def dict_items_def result_of_def
            pass_def d_def [symmetric] fun_eq_iff split: option.splits)
    qed
  qed
qed

text \<open>
  C6. For a message ID that is not in the backlog the handler raises \<^verbatim>\<open>NotFound\<close>, the one
  that the lookup in the backlog raises. For one that is in the backlog, the message being
  well formed (it has \<^verbatim>\<open>pub_msg_id\<close>, a numeric \<^verbatim>\<open>pub_time\<close>, a \<^verbatim>\<open>published_by_id\<close> that the
  endpoint directory resolves, and an \<^verbatim>\<open>expiration_time\<close> that is, as everywhere in the
  store, either unset or a number other than zero), the handler returns the message with
  \<^verbatim>\<open>pub_msg_id\<close> renamed to \<^verbatim>\<open>msg_id\<close>, \<^verbatim>\<open>pub_correl_id\<close> renamed to \<^verbatim>\<open>correl_id\<close> (\<^verbatim>\<open>None\<close>
  if there was none), \<^verbatim>\<open>published_by_id\<close> renamed to \<^verbatim>\<open>endpoint_id\<close>, \<^verbatim>\<open>endpoint_name\<close> added,
  and \<^verbatim>\<open>pub_time\<close> and every set \<^verbatim>\<open>expiration_time\<close> converted from epoch seconds. An unset
  \<^verbatim>\<open>expiration_time\<close> is left out. All other items are returned as they are.
\<close>

theorem GetFromServerTopicNonGD_handle_result:
  "(sync_backlog srv m = None \<longrightarrow>
      fst (GetFromServerTopicNonGD_handle dfm en srv m) = Inl NotFound) \<and>
   (\<forall>a mid pt ms eid name.
      sync_backlog srv m = Some a \<and>
      (objects srv ! a) ''pub_msg_id'' = Some mid \<and>
      (objects srv ! a) ''pub_time'' = Some pt \<and> mul_float pt 1000 = Inr ms \<and>
      (objects srv ! a) ''published_by_id'' = Some eid \<and> en eid = Inr name \<and>
      (\<forall>et. (objects srv ! a) ''expiration_time'' = Some et \<and> et \<noteq> PNone \<longrightarrow>
            truthy et \<and> \<not> isl (mul_float et 1000))
      \<longrightarrow>
      fst (GetFromServerTopicNonGD_handle dfm en srv m) =
        Inr ((objects srv ! a)
               (''pub_msg_id'' := None,
                ''msg_id'' \<mapsto> mid,
                ''pub_correl_id'' := None,
                ''correl_id'' \<mapsto>
                   (case (objects srv ! a) ''pub_correl_id'' of None \<Rightarrow> PNone | Some c \<Rightarrow> c),
                ''pub_time'' \<mapsto> PStr (dfm ms),
                ''expiration_time'' :=
                   (case (objects srv ! a) ''expiration_time'' of
                      None \<Rightarrow> None
                    | Some et \<Rightarrow>
                        if et = PNone then None
                        else Some (PStr (dfm (projr (mul_float et 1000))))),
                ''published_by_id'' := None,
                ''endpoint_id'' \<mapsto> eid,
                ''endpoint_name'' \<mapsto> PStr name)))"
proof (intro conjI allI impI)
  assume "sync_backlog srv m = None"
  then show "fst (GetFromServerTopicNonGD_handle dfm en srv m) = Inl NotFound"
    by (simp add: GetFromServerTopicNonGD_handle_absent)
next
  fix a mid pt ms eid name
  assume h: "sync_backlog srv m = Some a \<and>
      (objects srv ! a) ''pub_msg_id'' = Some mid \<and>
      (objects srv ! a) ''pub_time'' = Some pt \<and> mul_float pt 1000 = Inr ms \<and>
      (objects srv ! a) ''published_by_id'' = Some eid \<and> en eid = Inr name \<and>
      (\<forall>et. (objects srv ! a) ''expiration_time'' = Some et \<and> et \<noteq> PNone \<longrightarrow>
            truthy et \<and> \<not> isl (mul_float et 1000))"
  then have e: "\<And>et. (objects srv ! a) ''expiration_time'' = Some et \<Longrightarrow> truthy et \<Longrightarrow>
           mul_float et 1000 = Inr (projr (mul_float et 1000))"
    by (metis sum.collapse(2) truthy.simps(1))
  from h have 1: "sync_backlog srv m = Some a"
    and 2: "(objects srv ! a) ''pub_msg_id'' = Some mid"
    and 3: "(objects srv ! a) ''pub_time'' = Some pt"
    and 4: "mul_float pt 1000 = Inr ms"
    and 5: "(objects srv ! a) ''published_by_id'' = Some eid"
    and 6: "en eid = Inr name"
    by blast+
  from h have x: "(case (objects srv ! a) ''expiration_time'' of
                      None \<Rightarrow> None
                    | Some et \<Rightarrow>
                        if truthy et then Some (PStr (dfm (projr (mul_float et 1000))))
                        else None) =
                  (case (objects srv ! a) ''expiration_time'' of
                      None \<Rightarrow> None
                    | Some et \<Rightarrow>
                        if et = PNone then None
                        else Some (PStr (dfm (projr (mul_float et 1000)))))"
    by (cases "(objects srv ! a) ''expiration_time''") auto
  show "fst (GetFromServerTopicNonGD_handle dfm en srv m) =
        Inr ((objects srv ! a)
               (''pub_msg_id'' := None,
                ''msg_id'' \<mapsto> mid,
                ''pub_correl_id'' := None,
                ''correl_id'' \<mapsto>
                   (case (objects srv ! a) ''pub_correl_id'' of None \<Rightarrow> PNone | Some c \<Rightarrow> c),
                ''pub_time'' \<mapsto> PStr (dfm ms),
                ''expiration_time'' :=
                   (case (objects srv ! a) ''expiration_time'' of
                      None \<Rightarrow> None
                    | Some et \<Rightarrow>
                        if et = PNone then None
                        else Some (PStr (dfm (projr (mul_float et 1000))))),
                ''published_by_id'' := None,
                ''endpoint_id'' \<mapsto> eid,
                ''endpoint_name'' \<mapsto> PStr name))"
    using GetFromServerTopicNonGD_handle_present
      [where srv = srv and m = m and a = a and mid = mid and pt = pt and ms = ms and eid = eid
         and en = en and name = name and ems = "\<lambda>et. projr (mul_float et 1000)" and dfm = dfm,
       OF 1 2 3 4 5 6 e]
    unfolding x by simp
qed

theorem GetFromServerTopicNonGD_handle_result_witness:
  "sync_backlog server1 ''zpsm999'' = None \<and>
   fst (GetFromServerTopicNonGD_handle iso_text endpoint_names server1 ''zpsm999'') = Inl NotFound \<and>
   sync_backlog server1 ''zpsm004'' = Some 1 \<and>
   (objects server1 ! 1) ''expiration_time'' = Some (PFloat 1500000005) \<and>
   fst (GetFromServerTopicNonGD_handle iso_text endpoint_names server1 ''zpsm004'') =
     Inr (nongd_msg4
            (''pub_msg_id'' := None,
             ''msg_id'' \<mapsto> PStr ''zpsm004'',
             ''pub_correl_id'' := None,
             ''correl_id'' \<mapsto> PStr ''c4'',
             ''pub_time'' \<mapsto> PStr ''2017-07-14T02:40:00'',
             ''expiration_time'' \<mapsto> PStr ''2017-07-14T02:40:05'',
             ''published_by_id'' := None,
             ''endpoint_id'' \<mapsto> PInt 2,
             ''endpoint_name'' \<mapsto> PStr ''zato.pubsub.demo.endpoint'')) \<and>
   sync_backlog server1 ''zpsm003'' = Some 0 \<and>
   (objects server1 ! 0) ''expiration_time'' = Some PNone \<and>
   fst (GetFromServerTopicNonGD_handle iso_text endpoint_names server1 ''zpsm003'') =
     Inr (nongd_msg3
            (''pub_msg_id'' := None,
             ''msg_id'' \<mapsto> PStr ''zpsm003'',
             ''pub_correl_id'' := None,
             ''correl_id'' \<mapsto> PNone,
             ''pub_time'' \<mapsto> PStr ''2017-07-14T02:40:00'',
             ''expiration_time'' := None,
             ''published_by_id'' := None,
             ''endpoint_id'' \<mapsto> PInt 2,
             ''endpoint_name'' \<mapsto> PStr ''zato.pubsub.demo.endpoint''))"
proof -
  note t = GetFromServerTopicNonGD_handle_result [of server1 _ iso_text endpoint_names]
  have a: "sync_backlog server1 ''zpsm999'' = None" by (simp add: server1_def)
  from t [of "''zpsm999''"] a
  have 1: "fst (GetFromServerTopicNonGD_handle iso_text endpoint_names server1 ''zpsm999'') =
             Inl NotFound" by blast
  have b: "sync_backlog server1 ''zpsm004'' = Some 1 \<and>
      (objects server1 ! 1) ''pub_msg_id'' = Some (PStr ''zpsm004'') \<and>
      (objects server1 ! 1) ''pub_time'' = Some (PFloat 1500000000) \<and>
      mul_float (PFloat 1500000000) 1000 = Inr 1500000000000 \<and>
      (objects server1 ! 1) ''published_by_id'' = Some (PInt 2) \<and>
      endpoint_names (PInt 2) = Inr ''zato.pubsub.demo.endpoint'' \<and>
      (\<forall>et. (objects server1 ! 1) ''expiration_time'' = Some et \<and> et \<noteq> PNone \<longrightarrow>
            truthy et \<and> \<not> isl (mul_float et 1000))"
    by (simp add: server1_def nongd_msg4_def endpoint_names_def)
  from conjunct2 [OF t [of "''zpsm004''"], rule_format, OF b]
  have 2: "fst (GetFromServerTopicNonGD_handle iso_text endpoint_names server1 ''zpsm004'') =
     Inr (nongd_msg4
            (''pub_msg_id'' := None,
             ''msg_id'' \<mapsto> PStr ''zpsm004'',
             ''pub_correl_id'' := None,
             ''correl_id'' \<mapsto> PStr ''c4'',
             ''pub_time'' \<mapsto> PStr ''2017-07-14T02:40:00'',
             ''expiration_time'' \<mapsto> PStr ''2017-07-14T02:40:05'',
             ''published_by_id'' := None,
             ''endpoint_id'' \<mapsto> PInt 2,
             ''endpoint_name'' \<mapsto> PStr ''zato.pubsub.demo.endpoint''))"
    by (simp add: server1_def nongd_msg4_def iso_text_def)
  have c: "sync_backlog server1 ''zpsm003'' = Some 0 \<and>
      (objects server1 ! 0) ''pub_msg_id'' = Some (PStr ''zpsm003'') \<and>
      (objects server1 ! 0) ''pub_time'' = Some (PFloat 1500000000) \<and>
      mul_float (PFloat 1500000000) 1000 = Inr 1500000000000 \<and>
      (objects server1 ! 0) ''published_by_id'' = Some (PInt 2) \<and>
      endpoint_names (PInt 2) = Inr ''zato.pubsub.demo.endpoint'' \<and>
      (\<forall>et. (objects server1 ! 0) ''expiration_time'' = Some et \<and> et \<noteq> PNone \<longrightarrow>
            truthy et \<and> \<not> isl (mul_float et 1000))"
    by (simp add: server1_def nongd_msg3_def endpoint_names_def)
  from conjunct2 [OF t [of "''zpsm003''"], rule_format, OF c]
  have 3: "fst (GetFromServerTopicNonGD_handle iso_text endpoint_names server1 ''zpsm003'') =
     Inr (nongd_msg3
            (''pub_msg_id'' := None,
             ''msg_id'' \<mapsto> PStr ''zpsm003'',
             ''pub_correl_id'' := None,
             ''correl_id'' \<mapsto> PNone,
             ''pub_time'' \<mapsto> PStr ''2017-07-14T02:40:00'',
             ''expiration_time'' := None,
             ''published_by_id'' := None,
             ''endpoint_id'' \<mapsto> PInt 2,
             ''endpoint_name'' \<mapsto> PStr ''zato.pubsub.demo.endpoint''))"
    by (simp add: server1_def nongd_msg3_def iso_text_def)
  have d: "(objects server1 ! 1) ''expiration_time'' = Some (PFloat 1500000005)"
    "(objects server1 ! 0) ''expiration_time'' = Some PNone"
    by (simp_all add: server1_def nongd_msg3_def nongd_msg4_def)
  from a 1 b 2 c 3 d show ?thesis by blast
qed

section \<open>Properties of the non-GD delete\<close>

text \<open>
  \<^verbatim>\<open>DeleteNonGD\<close> and \<^verbatim>\<open>DeleteNonGDMessage\<close> forward: on a server that the name and PID
  address, the request raises what \<^verbatim>\<open>delete_msg_by_id\<close> raises and answers with the empty
  payload when it returns.
\<close>

lemma DeleteNonGD_handle_forwards:
  "servers (name, pid) = Some srv \<Longrightarrow>
   fst (DeleteNonGD_handle delete_msg_by_id servers cid name pid m) =
     (case delete_msg_by_id srv m of Inl e \<Rightarrow> Inl e | Inr srv' \<Rightarrow> Inr [])"
  by (simp add: DeleteNonGD_handle_def invoke_def DeleteNonGDMessage_handle_def
      split: sum.splits)

section \<open>Properties of the client protocol\<close>

lemma publish_all_state:
  "subscriptions (publish_all g ps t ds) = subscriptions ps \<and>
   (\<exists>msgs. published (publish_all g ps t ds) = published ps @ msgs \<and>
           map tm_data msgs = ds \<and> (\<forall>m\<in>set msgs. tm_topic m = t))"
proof (induction ds arbitrary: ps)
  case Nil
  then show ?case by simp
next
  case (Cons d ds)
  let ?ps1 = "snd (Publish g ps t d)"
  from Cons.IH [of ?ps1] obtain msgs where
    s: "subscriptions (publish_all g ?ps1 t ds) = subscriptions ?ps1"
    and p: "published (publish_all g ?ps1 t ds) = published ?ps1 @ msgs"
    and m: "map tm_data msgs = ds" "\<forall>m\<in>set msgs. tm_topic m = t"
    by blast
  have "published (publish_all g ps t (d # ds)) =
          published ps @ (\<lparr> tm_topic = t, tm_msg_id = g (allocated ps), tm_data = d \<rparr> # msgs)"
    using p by (simp add: Publish_def Let_def)
  moreover have "subscriptions (publish_all g ps t (d # ds)) = subscriptions ps"
    using s by (simp add: Publish_def Let_def)
  ultimately show ?case using m
    by (intro conjI exI [of _ "\<lparr> tm_topic = t, tm_msg_id = g (allocated ps), tm_data = d \<rparr> # msgs"])
       simp_all
qed

text \<open>
  C8. For a subscriber with an active subscription to a topic, after any non-empty run of
  publications to that topic, \<open>Receive\<close> returns a batch whose first message is the one
  published last; the published messages come in the reverse of the order of their
  publication, ahead of the messages the topic held before.
\<close>

theorem Receive_newest_first:
  assumes "has_subscription ps credential topic" and "bodies \<noteq> []"
  shows "\<exists>batch. Receive (publish_all g ps topic bodies) credential topic = Inr batch \<and>
           batch \<noteq> [] \<and>
           tm_data (hd batch) = last bodies \<and>
           map tm_data (take (length bodies) batch) = rev bodies \<and>
           drop (length bodies) batch = rev (topic_queue ps topic)"
proof -
  from publish_all_state [of g ps topic bodies] obtain msgs where
    s: "subscriptions (publish_all g ps topic bodies) = subscriptions ps"
    and p: "published (publish_all g ps topic bodies) = published ps @ msgs"
    and m: "map tm_data msgs = bodies" "\<forall>m\<in>set msgs. tm_topic m = topic"
    by blast
  from m(2) have f: "filter (\<lambda>m. tm_topic m = topic) msgs = msgs" by (simp add: filter_id_conv)
  from m(1) have l: "length msgs = length bodies" by (metis length_map)
  with assms(2) have ne: "msgs \<noteq> []" by auto
  have r: "Receive (publish_all g ps topic bodies) credential topic =
             Inr (rev msgs @ rev (topic_queue ps topic))"
    using assms(1) s p f by (simp add: Receive_def has_subscription_def topic_queue_def)
  have "hd (rev msgs @ rev (topic_queue ps topic)) = last msgs"
    using ne by (simp add: hd_rev)
  moreover have "tm_data (last msgs) = last bodies"
    using ne m(1) by (metis last_map)
  moreover have "map tm_data (take (length bodies) (rev msgs @ rev (topic_queue ps topic))) =
                   rev bodies"
    using l m(1) by (simp add: rev_map [symmetric])
  moreover have "drop (length bodies) (rev msgs @ rev (topic_queue ps topic)) =
                   rev (topic_queue ps topic)"
    using l by simp
  ultimately show ?thesis using r ne by simp
qed

theorem Receive_newest_first_witness:
  "has_subscription pubsub1 ''pubsub.demo'' ''/zato/demo/sample'' \<and>
   [''one'', ''two'', ''three''] \<noteq> [] \<and>
   map tm_data
     (projr (Receive (publish_all msg_id_of pubsub1 ''/zato/demo/sample'' [''one'', ''two'', ''three''])
        ''pubsub.demo'' ''/zato/demo/sample'')) = [''three'', ''two'', ''one'', ''old'']"
proof -
  have a: "has_subscription pubsub1 ''pubsub.demo'' ''/zato/demo/sample''"
    by (simp add: has_subscription_def pubsub1_def)
  have b: "[''one'', ''two'', ''three''] \<noteq> ([] :: string list)" by simp
  from Receive_newest_first [OF a b, of msg_id_of] obtain batch where
    r: "Receive (publish_all msg_id_of pubsub1 ''/zato/demo/sample'' [''one'', ''two'', ''three''])
          ''pubsub.demo'' ''/zato/demo/sample'' = Inr batch"
    and t: "map tm_data (take (length [''one'', ''two'', ''three'']) batch)
              = rev [''one'', ''two'', ''three'']"
    and d: "drop (length [''one'', ''two'', ''three'']) batch
              = rev (topic_queue pubsub1 ''/zato/demo/sample'')"
    by blast
  have "map tm_data batch =
          map tm_data (take (length [''one'', ''two'', ''three'']) batch) @
          map tm_data (drop (length [''one'', ''two'', ''three'']) batch)"
    by (metis append_take_drop_id map_append)
  then have "map tm_data batch = [''three'', ''two'', ''one'', ''old'']"
    unfolding t d by (simp add: topic_queue_def pubsub1_def)
  with r a show ?thesis by simp
qed

lemma has_subscription_Subscribe:
  "has_subscription (snd (Subscribe k ps c t)) c t"
  by (simp add: Subscribe_def has_subscription_def Let_def)

text \<open>
  C9. \<open>Unsubscribe\<close> succeeds with an empty result, also for a caller that has just
  unsubscribed, and the second call changes nothing. \<open>Subscribe\<close> succeeds, and a second
  \<open>Subscribe\<close> succeeds with an empty result and leaves the state of the first: a caller that
  was not subscribed has exactly one subscription to the topic after both calls.
\<close>

theorem Subscribe_Unsubscribe_idempotent:
  "fst (Unsubscribe ps c t) = Inr [] \<and>
   fst (Unsubscribe (snd (Unsubscribe ps c t)) c t) = Inr [] \<and>
   snd (Unsubscribe (snd (Unsubscribe ps c t)) c t) = snd (Unsubscribe ps c t) \<and>
   \<not> has_subscription (snd (Unsubscribe ps c t)) c t \<and>
   \<not> isl (fst (Subscribe k ps c t)) \<and>
   fst (Subscribe k (snd (Subscribe k ps c t)) c t) = Inr [] \<and>
   snd (Subscribe k (snd (Subscribe k ps c t)) c t) = snd (Subscribe k ps c t) \<and>
   (\<not> has_subscription ps c t \<longrightarrow>
      length (filter (\<lambda>s. sub_credential s = c \<and> sub_topic s = t)
                (subscriptions (snd (Subscribe k (snd (Subscribe k ps c t)) c t)))) = 1)"
proof -
  have s2: "Subscribe k (snd (Subscribe k ps c t)) c t = (Inr [], snd (Subscribe k ps c t))"
    using has_subscription_Subscribe [of k ps c t] by (simp add: Subscribe_def)
  have n: "\<not> has_subscription ps c t \<Longrightarrow>
           filter (\<lambda>s. sub_credential s = c \<and> sub_topic s = t) (subscriptions ps) = []"
    by (auto simp: has_subscription_def list_ex_iff filter_empty_conv)
  have cnt: "\<not> has_subscription ps c t \<longrightarrow>
      length (filter (\<lambda>s. sub_credential s = c \<and> sub_topic s = t)
                (subscriptions (snd (Subscribe k ps c t)))) = 1"
    using n by (simp add: Subscribe_def Let_def)
  have u: "\<not> has_subscription (snd (Unsubscribe ps c t)) c t"
    by (auto simp: Unsubscribe_def has_subscription_def list_ex_iff)
  have "\<not> isl (fst (Subscribe k ps c t))"
    by (simp add: Subscribe_def Let_def)
  with s2 cnt u show ?thesis by (simp add: Unsubscribe_def)
qed

theorem Subscribe_Unsubscribe_idempotent_witness:
  "\<not> has_subscription pubsub1 ''pubsub.demo'' ''/other'' \<and>
   fst (Subscribe sub_key_of pubsub1 ''pubsub.demo'' ''/other'') =
     Inr [(''sub_key'', PStr ''zpsk.rest.xx''), (''queue_depth'', PInt 1)] \<and>
   fst (Subscribe sub_key_of (snd (Subscribe sub_key_of pubsub1 ''pubsub.demo'' ''/other''))
          ''pubsub.demo'' ''/other'') = Inr [] \<and>
   length (filter (\<lambda>s. sub_credential s = ''pubsub.demo'' \<and> sub_topic s = ''/other'')
     (subscriptions
        (snd (Subscribe sub_key_of (snd (Subscribe sub_key_of pubsub1 ''pubsub.demo'' ''/other''))
                ''pubsub.demo'' ''/other'')))) = 1"
proof -
  have a: "\<not> has_subscription pubsub1 ''pubsub.demo'' ''/other''"
    by (simp add: has_subscription_def pubsub1_def)
  have b: "fst (Subscribe sub_key_of pubsub1 ''pubsub.demo'' ''/other'') =
     Inr [(''sub_key'', PStr ''zpsk.rest.xx''), (''queue_depth'', PInt 1)]"
    by (simp add: Subscribe_def has_subscription_def pubsub1_def Let_def sub_key_of_def
        topic_queue_def numeral_2_eq_2)
  note t = Subscribe_Unsubscribe_idempotent [of pubsub1 "''pubsub.demo''" "''/other''" sub_key_of]
  from t have c: "fst (Subscribe sub_key_of (snd (Subscribe sub_key_of pubsub1 ''pubsub.demo'' ''/other''))
          ''pubsub.demo'' ''/other'') = Inr []"
    by blast
  from t a have d: "length (filter (\<lambda>s. sub_credential s = ''pubsub.demo'' \<and> sub_topic s = ''/other'')
     (subscriptions
        (snd (Subscribe sub_key_of (snd (Subscribe sub_key_of pubsub1 ''pubsub.demo'' ''/other''))
                ''pubsub.demo'' ''/other'')))) = 1"
    by blast
  from a b c d show ?thesis by blast
qed

end
